theory Spec2Isabelle
  imports Main "HOL-Library.Word" "HOL-Library.Signed_Division"
begin

unbundle bit_operations_syntax

section \<open>Go values shared by the three packages\<close>

text \<open>
  Go byte slices and Go strings are sequences of bytes. Both are lists of 8-bit words
  here; a nil byte slice and an empty one are the same list, as \<open>bytes.Equal\<close> and
  \<open>bytes.Compare\<close> (the only comparisons the code makes on them) do not tell them apart.
\<close>

type_synonym bytes = "8 word list"
type_synonym go_string = "8 word list"
type_synonym Uint256 = "256 word"

text \<open>
  An error value handed back by a collaborator (store, crypto, protobuf, JSON library)
  and returned unchanged by the code (\<open>return err\<close>) is kept as its message.
\<close>

type_synonym go_error = string

text \<open>A function either returns or panics.\<close>

datatype panic = IndexOutOfRange | NilDereference

datatype 'a go = Return 'a | Panic panic

text \<open>
  A slice is nil or holds a (possibly empty) sequence of elements; the two are distinct
  values for the comparison \<open>== nil\<close>.
\<close>

datatype 'a slice = NilSlice | Slice "'a list"

section \<open>Ledger data (package ledger, part\_001)\<close>

text \<open>
  \<open>WinnerType\<close> and \<open>TransactionType\<close> are integer-backed Go types declared outside the
  given sources: beside the named constants the code compares against, every other
  value of the underlying integer is a value of the type.
\<close>

datatype WinnerType = GenesisSigner | TxnSigner | OtherWinnerType nat

datatype TransactionType = Coinbase | OtherTxType nat

datatype ErrCode = ErrNoError | ErrOther nat

record Commit =
  SigChain :: bytes

text \<open>The payload interface value of a transaction: a \<open>*payload.Commit\<close> or anything else.\<close>

datatype Payload = CommitPayload Commit | OtherPayload nat

record Transaction =
  TxType :: TransactionType
  Payload :: Payload

record Header =
  PrevBlockHash :: Uint256
  Height :: "32 word"
  Timestamp :: "64 word"
  WinnerHash :: Uint256
  WinnerType :: WinnerType
  Signer :: bytes
  Signature :: bytes

text \<open>\<open>Transactions []*tx.Transaction\<close>: a slice of pointers, \<open>None\<close> the nil pointer.\<close>

record Block =
  Header :: Header
  Transactions :: "Transaction option slice"

section \<open>TransactionCheck (part\_001, lines 44--67)\<close>

text \<open>
  The errors of \<open>TransactionCheck\<close>, one constructor for each \<open>errors.New\<close>:
  \<^item> \<open>EmptyBlock\<close>: "empty block";
  \<^item> \<open>MissingCoinbase\<close>: "first transaction in block is not Coinbase";
  \<^item> \<open>DuplicateCoinbase\<close>: "Coinbase transaction order is incorrect";
  \<^item> \<open>SanityCheckFailed\<close>: "transaction sanity check failed";
  \<^item> \<open>HistoryCheckFailed\<close>: "transaction history check failed";
  \<^item> \<open>BlockCheckFailed\<close>: "transaction block check failed".
\<close>

datatype tx_error =
    EmptyBlock
  | MissingCoinbase
  | DuplicateCoinbase
  | SanityCheckFailed
  | HistoryCheckFailed
  | BlockCheckFailed

text \<open>
  The three verifiers of package \<open>transaction\<close> are not part of the given sources; they
  are parameters. Each takes what the code passes: a transaction pointer, or the slice.
\<close>

record tx_verifiers =
  VerifyTransaction :: "Transaction option \<Rightarrow> ErrCode"
  VerifyTransactionWithLedger :: "Transaction option \<Rightarrow> ErrCode"
  VerifyTransactionWithBlock :: "Transaction option list \<Rightarrow> ErrCode"

text \<open>
  Line 52, \<open>i != 0 && txn.TxType == tx.Coinbase\<close>: the field is read only when
  \<open>i != 0\<close>, and reading it through a nil pointer panics.
\<close>

definition coinbase_out_of_place :: "nat \<Rightarrow> Transaction option \<Rightarrow> bool go" where
  "coinbase_out_of_place i txn =
     (if i = 0 then Return False
      else (case txn of
              None \<Rightarrow> Panic NilDereference
            | Some t \<Rightarrow> Return (TxType t = Coinbase)))"

text \<open>The loop of lines 51--61, from index \<open>i\<close> on; \<open>Return None\<close> when it runs through.\<close>

fun range_transactions ::
  "tx_verifiers \<Rightarrow> nat \<Rightarrow> Transaction option list \<Rightarrow> tx_error option go" where
  "range_transactions V i [] = Return None"
| "range_transactions V i (txn # rest) =
     (case coinbase_out_of_place i txn of
        Panic p \<Rightarrow> Panic p
      | Return True \<Rightarrow> Return (Some DuplicateCoinbase)
      | Return False \<Rightarrow>
          (if VerifyTransaction V txn \<noteq> ErrNoError then Return (Some SanityCheckFailed)
           else if VerifyTransactionWithLedger V txn \<noteq> ErrNoError
             then Return (Some HistoryCheckFailed)
           else range_transactions V (Suc i) rest))"

definition TransactionCheck :: "tx_verifiers \<Rightarrow> Block \<Rightarrow> tx_error option go" where
  "TransactionCheck V block =
     (case Transactions block of
        NilSlice \<Rightarrow> Return (Some EmptyBlock)
      | Slice [] \<Rightarrow> Panic IndexOutOfRange
      | Slice (None # rest) \<Rightarrow> Panic NilDereference
      | Slice (Some t0 # rest) \<Rightarrow>
          if TxType t0 \<noteq> Coinbase then Return (Some MissingCoinbase)
          else (case range_transactions V 0 (Some t0 # rest) of
                  Panic p \<Rightarrow> Panic p
                | Return (Some e) \<Rightarrow> Return (Some e)
                | Return None \<Rightarrow>
                    (if VerifyTransactionWithBlock V (Some t0 # rest) \<noteq> ErrNoError
                     then Return (Some BlockCheckFailed)
                     else Return None)))"

section \<open>Time (Go's package time)\<close>

text \<open>
  A \<open>time.Time\<close> denotes an instant, counted here in nanoseconds since the Unix epoch, and
  a \<open>time.Duration\<close> is a number of nanoseconds. Go keeps the seconds of a \<open>Time\<close> as an
  int64 counted from the year 1, which is 62135596800 seconds before the Unix epoch.
  \<open>time.Unix(sec, 0)\<close> stores \<open>sec + 62135596800\<close> in that int64, so for
  \<open>sec > 9223371974719179007\<close> the sum wraps around and the \<open>Time\<close> denotes an instant
  \<open>2 ^ 64\<close> seconds earlier than \<open>sec\<close>.

  The clock is read once per call with \<open>time.Now()\<close>. Its reading is given as the int64
  number of nanoseconds since the Unix epoch (the value of \<open>UnixNano\<close>, which covers the
  years 1678 to 2262). For such a reading and for the results of \<open>time.Unix\<close> the
  operations the code uses are exact: \<open>t.Add(d)\<close> is \<open>t + d\<close> (here \<open>d\<close> is 40 seconds
  either way), \<open>t.Before(u)\<close> is \<open>t < u\<close>, \<open>t.After(u)\<close> is \<open>t > u\<close>, and \<open>t.Unix()\<close>
  is the number of whole seconds of \<open>t\<close>, rounded down.
\<close>

type_synonym time = int

definition Second :: int where
  "Second = 1000000000"

definition time_Unix :: "64 word \<Rightarrow> time" where
  "time_Unix sec = (sint (sec + 62135596800) - 62135596800) * Second"

definition time_Now :: "64 word \<Rightarrow> time" where
  "time_Now clock = sint clock"

definition Unix :: "time \<Rightarrow> int" where
  "Unix t = t div Second"

text \<open>Lines 21--24.\<close>

definition GenesisBlockProposedHeight :: "32 word" where
  "GenesisBlockProposedHeight = 4"

definition TimestampTolerance :: int where
  "TimestampTolerance = 40 * Second"

section \<open>HeaderCheck (part\_001, lines 69--190)\<close>

text \<open>
  The errors of \<open>HeaderCheck\<close>, one constructor for each error the function builds itself,
  and \<open>Upstream\<close> for every \<open>return err\<close> of an error received from a collaborator:
  \<^item> \<open>PrevMissing\<close>: "prev header doesn't exist";
  \<^item> \<open>InvalidPrevHeader\<close>: "invalid prev header";
  \<^item> \<open>HeightMismatch\<close>: "invalid header height";
  \<^item> \<open>PostdatedTimestamp\<close>: "postdated timestamp over tolerance";
  \<^item> \<open>NonMonotonicTimestamp\<close>: "invalid header timestamp";
  \<^item> \<open>InvalidWinnerType\<close>: "invalid winning hash type";
  \<^item> \<open>InvalidTransactionType\<close>: "invalid transaction type";
  \<^item> \<open>WrongSigner\<close>: "invalid block signer public key: ..." with the header's signer.
\<close>

datatype header_error =
    PrevMissing
  | InvalidPrevHeader
  | HeightMismatch
  | PostdatedTimestamp
  | NonMonotonicTimestamp
  | InvalidWinnerType
  | InvalidTransactionType
  | WrongSigner bytes
  | Upstream go_error

text \<open>
  What \<open>HeaderCheck\<close> reads from outside: the ledger singleton (\<open>DefaultLedger.Blockchain\<close>,
  \<open>DefaultLedger.Store\<close>), \<open>Block.GetSigner\<close>, \<open>proto.Unmarshal\<close> and
  \<open>SigChain.GetMiner\<close>, the crypto package, the clock and the configuration. None of
  them is in the given sources; they are the fields of one record, each a function of
  what the code passes; \<open>Now\<close> is the reading of the clock, in nanoseconds since the
  Unix epoch. A call that returns a value and an error is a sum, \<open>Inl\<close> the
  error. \<open>GetHeader\<close> may return a nil header beside a nil error (line 78 tests it).
  \<open>Unmarshal\<close> gives the \<open>SigChain\<close> that \<open>proto.Unmarshal\<close> leaves in the fresh
  \<open>&por.SigChain{}\<close> of line 161, paired with the error it returns. \<open>'sc\<close> is the
  type \<open>por.SigChain\<close>, \<open>'pk\<close> the type \<open>crypto.PubKey\<close>.
\<close>

record ('sc, 'pk) ledger =
  GetHeader :: "Uint256 \<Rightarrow> go_error + Header option"
  GetBlockHash :: "32 word \<Rightarrow> go_error + Uint256"
  GetBlock :: "Uint256 \<Rightarrow> go_error + Block"
  GetBlockTime :: "Uint256 \<Rightarrow> go_error + 64 word"
  GetTransaction :: "Uint256 \<Rightarrow> go_error + Transaction"
  GetSigner :: "Block \<Rightarrow> go_error + bytes \<times> bytes"
  Unmarshal :: "bytes \<Rightarrow> 'sc \<times> go_error option"
  GetMiner :: "'sc \<Rightarrow> go_error + bytes \<times> bytes"
  DecodePoint :: "bytes \<Rightarrow> go_error + 'pk"
  Verify :: "'pk \<Rightarrow> bytes \<Rightarrow> bytes \<Rightarrow> go_error option"
  GetHashForSigning :: "Header \<Rightarrow> bytes"
  Now :: "64 word"
  ProposerChangeTime :: "64 word"

text \<open>\<open>x, err := f(...); if err != nil { return err }\<close>, then the rest with \<open>x\<close>.\<close>

definition or_return :: "go_error + 'a \<Rightarrow> ('a \<Rightarrow> header_error + 'b) \<Rightarrow> header_error + 'b" where
  "or_return r k = (case r of Inl err \<Rightarrow> Inl (Upstream err) | Inr x \<Rightarrow> k x)"

text \<open>Lines 108--112; the subtraction is that of int64 and wraps.\<close>

definition timeDiff :: "64 word \<Rightarrow> 64 word \<Rightarrow> 64 word \<Rightarrow> 64 word" where
  "timeDiff receiveTime prevTimestamp genesisTimestamp =
     (if prevTimestamp = genesisTimestamp then 0 else receiveTime - prevTimestamp)"

text \<open>
  Line 117, \<open>int64(config.ProposerChangeTime / time.Second)\<close>: Go's division of
  integers, which truncates towards zero.
\<close>

definition timeSlot :: "('sc, 'pk) ledger \<Rightarrow> 64 word" where
  "timeSlot L = word_of_int (sint (ProposerChangeTime L) sdiv Second)"

text \<open>Lines 119--140: the branch \<open>timeDiff >= timeSlot\<close>, with \<open>proposerBlockHeight := 0\<close>.\<close>

definition fallback_proposer :: "('sc, 'pk) ledger \<Rightarrow> header_error + bytes \<times> bytes" where
  "fallback_proposer L =
     or_return (GetBlockHash L 0) (\<lambda>proposerBlockHash.
     or_return (GetBlock L proposerBlockHash) (\<lambda>proposerBlock.
     or_return (GetSigner L proposerBlock) Inr))"

text \<open>
  Lines 142--171: the \<open>switch winnerType\<close>. It has no default case: for any other
  winner type \<open>publicKey\<close> and \<open>chordID\<close> keep their zero value, the nil slice.
\<close>

definition normal_proposer ::
  "('sc, 'pk) ledger \<Rightarrow> Block \<Rightarrow> Header \<Rightarrow> header_error + bytes \<times> bytes" where
  "normal_proposer L genesisBlock prevHeader =
     (case WinnerType prevHeader of
        GenesisSigner \<Rightarrow> or_return (GetSigner L genesisBlock) Inr
      | TxnSigner \<Rightarrow>
          or_return (GetTransaction L (WinnerHash prevHeader)) (\<lambda>txn.
            (case Payload txn of
               OtherPayload _ \<Rightarrow> Inl InvalidTransactionType
             | CommitPayload payload \<Rightarrow>
                 (let sigchain = fst (Unmarshal L (SigChain payload))
                  in or_return (GetMiner L sigchain) Inr)))
      | OtherWinnerType _ \<Rightarrow> Inr ([], []))"

text \<open>
  Lines 94--172, the proposer election: the expected public key and chord ID, or the
  error with which \<open>HeaderCheck\<close> returns.
\<close>

definition electProposer ::
  "('sc, 'pk) ledger \<Rightarrow> Header \<Rightarrow> Header \<Rightarrow> 64 word \<Rightarrow> header_error + bytes \<times> bytes" where
  "electProposer L header prevHeader receiveTime =
     or_return (GetBlockHash L 0) (\<lambda>genesisBlockHash.
     or_return (GetBlock L genesisBlockHash) (\<lambda>genesisBlock.
     or_return (GetBlockTime L (PrevBlockHash header)) (\<lambda>prevTimestamp.
       if sint (timeSlot L)
            \<le> sint (timeDiff receiveTime prevTimestamp (Timestamp (Header genesisBlock)))
       then fallback_proposer L
       else normal_proposer L genesisBlock prevHeader)))"

text \<open>Lines 173--189: signer match and signature.\<close>

definition verify_signer ::
  "('sc, 'pk) ledger \<Rightarrow> Header \<Rightarrow> bytes \<Rightarrow> header_error option" where
  "verify_signer L header publicKey =
     (if publicKey \<noteq> Signer header then Some (WrongSigner (Signer header))
      else (case DecodePoint L publicKey of
              Inl err \<Rightarrow> Some (Upstream err)
            | Inr rawPubKey \<Rightarrow>
                (case Verify L rawPubKey (GetHashForSigning L header) (Signature header) of
                   Some err \<Rightarrow> Some (Upstream err)
                 | None \<Rightarrow> None)))"

definition HeaderCheck :: "('sc, 'pk) ledger \<Rightarrow> Header \<Rightarrow> 64 word \<Rightarrow> header_error option" where
  "HeaderCheck L header receiveTime =
     (if Height header = 0 then None
      else (case GetHeader L (PrevBlockHash header) of
              Inl err \<Rightarrow> Some PrevMissing
            | Inr None \<Rightarrow> Some InvalidPrevHeader
            | Inr (Some prevHeader) \<Rightarrow>
                (if Height prevHeader + 1 \<noteq> Height header then Some HeightMismatch
                 else if time_Unix (Timestamp header) > time_Now (Now L) + TimestampTolerance
                   then Some PostdatedTimestamp
                 else if sint (Timestamp prevHeader) \<ge> sint (Timestamp header)
                   then Some NonMonotonicTimestamp
                 else if WinnerType header = GenesisSigner
                         \<and> Height header \<ge> GenesisBlockProposedHeight
                   then Some InvalidWinnerType
                 else (case electProposer L header prevHeader receiveTime of
                         Inl err \<Rightarrow> Some err
                       | Inr (publicKey, chordID) \<Rightarrow> verify_signer L header publicKey))))"

section \<open>TimestampCheck (part\_001, lines 192--202)\<close>

text \<open>
  The one error of \<open>TimestampCheck\<close>, "timestamp %d exceed my tolerance [%d, %d]",
  with the three numbers of the message. The first argument of the function below is
  the reading of the clock at line 194.
\<close>

datatype timestamp_error = StaleTimestamp "64 word" int int

definition TimestampCheck :: "64 word \<Rightarrow> 64 word \<Rightarrow> timestamp_error option" where
  "TimestampCheck clock timestamp =
     (let t = time_Unix timestamp;
          now = time_Now clock;
          earliest = now + (- TimestampTolerance);
          latest = now + TimestampTolerance
      in if t < earliest \<or> t > latest
         then Some (StaleTimestamp timestamp (Unix earliest) (Unix latest))
         else None)"

section \<open>Serialization helpers (packages common and common/serialization)\<close>

text \<open>
  \<open>Subscribe.Serialize\<close> and \<open>Subscribe.Deserialize\<close> call the readers and writers of
  package \<open>serialization\<close>, and the JSON methods call the hex helpers of package
  \<open>common\<close>. Neither package is among the given sources, so each helper is written
  from the specification (sections 4.1, 4.2, 6 and 9). A writer \<open>w\<close> is the sequence of
  bytes written so far, and writing never fails (as with a \<open>bytes.Buffer\<close>;
  \<open>Serialize\<close> drops every error of its writes anyway); a reader \<open>r\<close> is the sequence
  of bytes not yet read, and a successful read returns the value with the rest.
\<close>














text \<open>
  Modelled from the spec: one hexadecimal digit of \<open>BytesToHexString\<close>, "hex is
  lowercase, no prefix": the characters 0..9 (codes 48..57) and a..f (codes 97..102).
\<close>

definition hex_digit :: "nat \<Rightarrow> 8 word" where
  "hex_digit n = of_nat (if n < 10 then 48 + n else 87 + n)"

text \<open>Modelled from the spec: \<open>common.BytesToHexString\<close>, two digits for each byte.\<close>

definition BytesToHexString :: "bytes \<Rightarrow> go_string" where
  "BytesToHexString v = concat (map (\<lambda>b. [hex_digit (unat b div 16), hex_digit (unat b mod 16)]) v)"

text \<open>
  Modelled from the spec: the value of a hexadecimal digit, in either case; \<open>None\<close> for
  any other character.
\<close>

definition hex_value :: "8 word \<Rightarrow> nat option" where
  "hex_value c =
     (let n = unat c
      in if 48 \<le> n \<and> n \<le> 57 then Some (n - 48)
         else if 97 \<le> n \<and> n \<le> 102 then Some (n - 87)
         else if 65 \<le> n \<and> n \<le> 70 then Some (n - 55)
         else None)"

text \<open>
  Modelled from the spec: decoding a hex string; \<open>None\<close> when the string is malformed
  (a character that is no digit, or an odd number of characters).
\<close>

fun hex_decode :: "go_string \<Rightarrow> bytes option" where
  "hex_decode [] = Some []"
| "hex_decode [c] = None"
| "hex_decode (c1 # c2 # r) =
     (case (hex_value c1, hex_value c2, hex_decode r) of
        (Some h, Some l, Some v) \<Rightarrow> Some (of_nat (16 * h + l) # v)
      | _ \<Rightarrow> None)"

text \<open>
  Modelled from the spec: \<open>common.HexStringToBytes\<close>, which returns the bytes and an
  error. Sections 4.2 and 9: on malformed hex the caller, dropping the error, is left
  with "an empty byte-string".
\<close>

definition HexStringToBytes :: "go_string \<Rightarrow> bytes \<times> go_error option" where
  "HexStringToBytes s =
     (case hex_decode s of
        Some v \<Rightarrow> (v, None)
      | None \<Rightarrow> ([], Some ''invalid hex string''))"

section \<open>Subscribe (package payload, part\_000)\<close>

text \<open>
  Modelled from the spec: the struct \<open>SubscribeInfo\<close>, which \<open>MarshalJson\<close> fills and
  \<open>UnmarshalJson\<close> reads but which is declared outside the given sources. Its fields are
  those of the JSON wire form of section 6: the subscriber as a hex string, identifier
  and topic as strings, bucket and duration as 32-bit numbers.
\<close>

record SubscribeInfo =
  Subscriber :: go_string
  Identifier :: go_string
  Topic :: go_string
  Bucket :: "32 word"
  Duration :: "32 word"

text \<open>
  Lines 14--20. The field names are those of \<open>SubscribeInfo\<close>; below, a bare field
  name is a field of \<open>Subscribe\<close>, and the fields of \<open>SubscribeInfo\<close> are written with
  the record's name in front.
\<close>

record Subscribe =
  Subscriber :: bytes
  Identifier :: go_string
  Topic :: go_string
  Bucket :: "32 word"
  Duration :: "32 word"





text \<open>
  Go's \<open>encoding/json\<close> is not code of this repository; its two functions are
  parameters. \<open>json_Marshal\<close> is \<open>json.Marshal\<close> on a \<open>*SubscribeInfo\<close>.
  \<open>json_Unmarshal\<close> is \<open>json.Unmarshal(data, &si)\<close> for the fresh
  \<open>si := new(SubscribeInfo)\<close> of line 107: it returns an error, or leaves \<open>si\<close> pointing
  to the decoded struct, or leaves \<open>si\<close> nil (\<open>None\<close>; the JSON text \<open>null\<close> sets a
  pointer to nil).
\<close>

record json_library =
  json_Marshal :: "SubscribeInfo \<Rightarrow> go_error + bytes"
  json_Unmarshal :: "bytes \<Rightarrow> go_error + SubscribeInfo option"


text \<open>
  Lines 106--124. The error of \<open>HexStringToBytes\<close> is dropped (line 113); reading a
  field through a nil \<open>si\<close> panics.
\<close>

definition UnmarshalJson ::
  "json_library \<Rightarrow> Subscribe \<Rightarrow> bytes \<Rightarrow> (Subscribe \<times> go_error option) go" where
  "UnmarshalJson J s data =
     (case json_Unmarshal J data of
        Inl err \<Rightarrow> Return (s, Some err)
      | Inr None \<Rightarrow> Panic NilDereference
      | Inr (Some si) \<Rightarrow>
          Return (s\<lparr>Subscriber := fst (HexStringToBytes (SubscribeInfo.Subscriber si)),
                    Identifier := SubscribeInfo.Identifier si,
                    Topic := SubscribeInfo.Topic si,
                    Bucket := SubscribeInfo.Bucket si,
                    Duration := SubscribeInfo.Duration si\<rparr>,
                  None))"

section \<open>Phases of HeaderCheck as conditions on its inputs\<close>

text \<open>
  Lines 70--89 let a header with predecessor \<open>prevHeader\<close> through: it is not the
  genesis header, the predecessor is found, the heights are consecutive, the timestamp
  is not postdated and it is later than the predecessor's.
\<close>

definition reaches_winner_check :: "('sc, 'pk) ledger \<Rightarrow> Header \<Rightarrow> Header \<Rightarrow> bool" where
  "reaches_winner_check L header prevHeader \<longleftrightarrow>
     Height header \<noteq> 0
     \<and> GetHeader L (PrevBlockHash header) = Inr (Some prevHeader)
     \<and> Height prevHeader + 1 = Height header
     \<and> \<not> time_Unix (Timestamp header) > time_Now (Now L) + TimestampTolerance
     \<and> \<not> sint (Timestamp prevHeader) \<ge> sint (Timestamp header)"

text \<open>Lines 70--92 let it through: the test of line 90 passes as well.\<close>

definition reaches_election :: "('sc, 'pk) ledger \<Rightarrow> Header \<Rightarrow> Header \<Rightarrow> bool" where
  "reaches_election L header prevHeader \<longleftrightarrow>
     reaches_winner_check L header prevHeader
     \<and> \<not> (WinnerType header = GenesisSigner \<and> Height header \<ge> GenesisBlockProposedHeight)"

section \<open>Concrete inputs\<close>

text \<open>Transactions, verifiers and blocks on which \<open>TransactionCheck\<close> is run below.\<close>

definition ex_coinbase :: Transaction where
  "ex_coinbase = \<lparr>TxType = Coinbase, Payload = OtherPayload 0\<rparr>"

definition ex_transfer :: Transaction where
  "ex_transfer = \<lparr>TxType = OtherTxType 16, Payload = OtherPayload 0\<rparr>"

definition accept_all :: tx_verifiers where
  "accept_all = \<lparr>VerifyTransaction = (\<lambda>_. ErrNoError),
     VerifyTransactionWithLedger = (\<lambda>_. ErrNoError),
     VerifyTransactionWithBlock = (\<lambda>_. ErrNoError)\<rparr>"

definition reject_sanity :: tx_verifiers where
  "reject_sanity = \<lparr>VerifyTransaction = (\<lambda>_. ErrOther 1),
     VerifyTransactionWithLedger = (\<lambda>_. ErrNoError),
     VerifyTransactionWithBlock = (\<lambda>_. ErrNoError)\<rparr>"

text \<open>
  A small chain view: the genesis block (hash 10, timestamp 1000, signed by key \<open>[1]\<close>),
  a predecessor header under hash 12 whose height and winner type vary, a \<open>Commit\<close>
  transaction under hash 7 whose sigchain names the miner \<open>[9]\<close>, a protobuf decoder
  that always reports an error, a clock at second 1120 and a proposer change time of
  one minute. Candidate headers point to the predecessor and carry timestamp 1100.
\<close>

definition ex_genesis :: Block where
  "ex_genesis = \<lparr>Header = \<lparr>PrevBlockHash = 0, Height = 0, Timestamp = 1000, WinnerHash = 0,
       WinnerType = GenesisSigner, Signer = [1], Signature = []\<rparr>,
     Transactions = NilSlice\<rparr>"

definition ex_prev :: "32 word \<Rightarrow> WinnerType \<Rightarrow> Header" where
  "ex_prev h wt = \<lparr>PrevBlockHash = 11, Height = h, Timestamp = 1000, WinnerHash = 7,
       WinnerType = wt, Signer = [1], Signature = []\<rparr>"

definition ex_commit :: Transaction where
  "ex_commit = \<lparr>TxType = OtherTxType 66, Payload = CommitPayload \<lparr>SigChain = [9]\<rparr>\<rparr>"

definition ex_ledger :: "Header \<Rightarrow> 64 word \<Rightarrow> (bytes, bytes) ledger" where
  "ex_ledger prev prevTime =
    \<lparr>GetHeader = (\<lambda>h. if h = 12 then Inr (Some prev) else Inl ''not found''),
     GetBlockHash = (\<lambda>n. if n = 0 then Inr 10 else Inl ''not found''),
     GetBlock = (\<lambda>h. if h = 10 then Inr ex_genesis else Inl ''not found''),
     GetBlockTime = (\<lambda>h. if h = 12 then Inr prevTime else Inl ''not found''),
     GetTransaction = (\<lambda>h. if h = 7 then Inr ex_commit else Inl ''not found''),
     GetSigner = (\<lambda>b. Inr (Signer (Header b), [])),
     Unmarshal = (\<lambda>b. (b, Some ''unexpected EOF'')),
     GetMiner = (\<lambda>sc. Inr (sc, [])),
     DecodePoint = Inr,
     Verify = (\<lambda>pk h sig. None),
     GetHashForSigning = (\<lambda>h. []),
     Now = 1120000000000,
     ProposerChangeTime = 60000000000\<rparr>"

definition ex_candidate :: "32 word \<Rightarrow> WinnerType \<Rightarrow> bytes \<Rightarrow> Header" where
  "ex_candidate h wt signer = \<lparr>PrevBlockHash = 12, Height = h, Timestamp = 1100, WinnerHash = 0,
       WinnerType = wt, Signer = signer, Signature = []\<rparr>"

text \<open>
  Subscribe values: the one of the test vector in section 8 of the specification
  (subscriber 0a 0b, identifier "x", topic "t", bucket 1, duration 2), the zero value,
  and the first with the identifier replaced by the single byte FF, which is not UTF-8.
\<close>

definition ex_subscribe :: Subscribe where
  "ex_subscribe = \<lparr>Subscriber = [0x0a, 0x0b], Identifier = [0x78], Topic = [0x74],
     Bucket = 1, Duration = 2\<rparr>"



text \<open>The bytes of a text of ASCII characters.\<close>

definition ascii :: "string \<Rightarrow> bytes" where
  "ascii text = map of_char text"

text \<open>
  Three JSON texts and a JSON library that knows them: the JSON form of the test vector;
  the same with the subscriber "zz", which is no hex string; and an object whose
  \<open>Bucket\<close> is a string, on which \<open>json.Unmarshal\<close> reports a type error.
\<close>

definition ex_info :: "go_string \<Rightarrow> SubscribeInfo" where
  "ex_info hex = \<lparr>SubscribeInfo.Subscriber = hex, SubscribeInfo.Identifier = [0x78],
     SubscribeInfo.Topic = [0x74], SubscribeInfo.Bucket = 1, SubscribeInfo.Duration = 2\<rparr>"

definition ex_text :: bytes where
  "ex_text =
     ascii ''{\"Subscriber\":\"0a0b\",\"Identifier\":\"x\",\"Topic\":\"t\",\"Bucket\":1,\"Duration\":2}''"

definition ex_text_bad_hex :: bytes where
  "ex_text_bad_hex =
     ascii ''{\"Subscriber\":\"zz\",\"Identifier\":\"x\",\"Topic\":\"t\",\"Bucket\":1,\"Duration\":2}''"

definition ex_text_bad_type :: bytes where
  "ex_text_bad_type = ascii ''{\"Subscriber\":\"zz\",\"Bucket\":\"x\"}''"

definition ex_json :: json_library where
  "ex_json =
    \<lparr>json_Marshal = (\<lambda>si. if si = ex_info (ascii ''0a0b'') then Inr ex_text
                          else Inl ''json: unsupported value''),
     json_Unmarshal = (\<lambda>data.
        if data = ex_text then Inr (Some (ex_info (ascii ''0a0b'')))
        else if data = ex_text_bad_hex then Inr (Some (ex_info (ascii ''zz'')))
        else if data = ex_text_bad_type
          then Inl ''json: cannot unmarshal string into Go struct field SubscribeInfo.Bucket of type uint32''
        else Inl ''invalid character'')\<rparr>"

section \<open>Properties of TransactionCheck\<close>

text \<open>
  C1. A block whose transaction list is empty is answered with \<open>EmptyBlock\<close> only when
  the slice is nil. On a non-nil slice of length 0 the test of line 45 passes and the
  indexing \<open>block.Transactions[0]\<close> of line 48 is reached: the call panics with an
  index out of range.
\<close>

theorem TransactionCheck_empty_transactions:
  "TransactionCheck V (block\<lparr>Transactions := NilSlice\<rparr>) = Return (Some EmptyBlock)
   \<and> TransactionCheck V (block\<lparr>Transactions := Slice []\<rparr>) = Panic IndexOutOfRange"
  by (simp add: TransactionCheck_def)

text \<open>
  The loop answers \<open>DuplicateCoinbase\<close> at a Coinbase transaction behind index 0 when
  every transaction before it is allocated and passes both per-transaction verifiers.
\<close>

lemma range_transactions_duplicate:
  assumes "k < length ts" and "ts ! k = Some t" and "TxType t = Coinbase" and "0 < i + k"
    and "\<forall>j<k. ts ! j \<noteq> None \<and> VerifyTransaction V (ts ! j) = ErrNoError
           \<and> VerifyTransactionWithLedger V (ts ! j) = ErrNoError"
  shows "range_transactions V i ts = Return (Some DuplicateCoinbase)"
  using assms
proof (induction ts arbitrary: i k)
  case Nil
  then show ?case by simp
next
  case (Cons x rest)
  show ?case
  proof (cases k)
    case 0
    with Cons.prems show ?thesis by (simp add: coinbase_out_of_place_def)
  next
    case (Suc k')
    from Cons.prems Suc have head: "x \<noteq> None" "VerifyTransaction V x = ErrNoError"
      "VerifyTransactionWithLedger V x = ErrNoError"
      by auto
    from Cons.prems Suc have tail: "\<forall>j<k'. rest ! j \<noteq> None
        \<and> VerifyTransaction V (rest ! j) = ErrNoError
        \<and> VerifyTransactionWithLedger V (rest ! j) = ErrNoError"
      by auto
    from Cons.prems Suc have "k' < length rest" "rest ! k' = Some t" "0 < Suc i + k'"
      by auto
    then have IH: "range_transactions V (Suc i) rest = Return (Some DuplicateCoinbase)"
      using Cons.IH [of k' "Suc i"] Cons.prems(3) tail by blast
    from head obtain tx where "x = Some tx" by auto
    then show ?thesis using head IH
      by (auto simp: coinbase_out_of_place_def split: bool.splits)
  qed
qed

text \<open>
  C6, as the code has it. A block whose first transaction is Coinbase and which has a
  Coinbase transaction at an index \<open>i > 0\<close> fails with \<open>DuplicateCoinbase\<close> when the
  transactions before index \<open>i\<close> are allocated and pass \<open>VerifyTransaction\<close> and
  \<open>VerifyTransactionWithLedger\<close>; a non-empty block whose first transaction is not
  Coinbase fails with \<open>MissingCoinbase\<close>.
\<close>

theorem coinbase_exclusivity:
  "(Transactions block = Slice ts \<and> ts ! 0 = Some t0 \<and> TxType t0 = Coinbase
      \<and> 0 < i \<and> i < length ts \<and> ts ! i = Some ti \<and> TxType ti = Coinbase
      \<and> (\<forall>j<i. ts ! j \<noteq> None \<and> VerifyTransaction V (ts ! j) = ErrNoError
             \<and> VerifyTransactionWithLedger V (ts ! j) = ErrNoError)
     \<longrightarrow> TransactionCheck V block = Return (Some DuplicateCoinbase))
   \<and> (Transactions block = Slice (Some t1 # rest) \<and> TxType t1 \<noteq> Coinbase
     \<longrightarrow> TransactionCheck V block = Return (Some MissingCoinbase))"
proof (intro conjI impI)
  assume a: "Transactions block = Slice ts \<and> ts ! 0 = Some t0 \<and> TxType t0 = Coinbase
      \<and> 0 < i \<and> i < length ts \<and> ts ! i = Some ti \<and> TxType ti = Coinbase
      \<and> (\<forall>j<i. ts ! j \<noteq> None \<and> VerifyTransaction V (ts ! j) = ErrNoError
             \<and> VerifyTransactionWithLedger V (ts ! j) = ErrNoError)"
  then obtain rest' where ts: "ts = Some t0 # rest'"
    by (cases ts) auto
  from a have "range_transactions V 0 ts = Return (Some DuplicateCoinbase)"
    using range_transactions_duplicate [of i ts ti 0 V] by simp
  with a ts show "TransactionCheck V block = Return (Some DuplicateCoinbase)"
    by (simp add: TransactionCheck_def)
next
  assume "Transactions block = Slice (Some t1 # rest) \<and> TxType t1 \<noteq> Coinbase"
  then show "TransactionCheck V block = Return (Some MissingCoinbase)"
    by (simp add: TransactionCheck_def)
qed

text \<open>
  The theorem at two blocks of the genesis header: Coinbase twice, every verifier
  accepting; and a transfer alone.
\<close>

theorem coinbase_exclusivity_witness:
  "TransactionCheck accept_all
     \<lparr>Header = Header ex_genesis, Transactions = Slice [Some ex_coinbase, Some ex_coinbase]\<rparr>
     = Return (Some DuplicateCoinbase)
   \<and> TransactionCheck accept_all
     \<lparr>Header = Header ex_genesis, Transactions = Slice [Some ex_transfer]\<rparr>
     = Return (Some MissingCoinbase)"
  using coinbase_exclusivity [of
      "\<lparr>Header = Header ex_genesis, Transactions = Slice [Some ex_coinbase, Some ex_coinbase]\<rparr>"
      "[Some ex_coinbase, Some ex_coinbase]" ex_coinbase 1 ex_coinbase accept_all]
    coinbase_exclusivity [of
      "\<lparr>Header = Header ex_genesis, Transactions = Slice [Some ex_transfer]\<rparr>"
      _ _ _ _ _ ex_transfer "[]"]
  by (simp add: ex_coinbase_def ex_transfer_def accept_all_def)

text \<open>
  C6 as the specification states it fails twice. A transfer followed by a Coinbase
  transaction has Coinbase at index 1 and is answered \<open>MissingCoinbase\<close>; two Coinbase
  transactions of which the first fails \<open>VerifyTransaction\<close> are answered
  \<open>SanityCheckFailed\<close>.
\<close>

theorem coinbase_exclusivity_counterexample:
  "map_option TxType ([Some ex_transfer, Some ex_coinbase] ! 1) = Some Coinbase
   \<and> TransactionCheck accept_all
       \<lparr>Header = Header ex_genesis, Transactions = Slice [Some ex_transfer, Some ex_coinbase]\<rparr>
       = Return (Some MissingCoinbase)
   \<and> map_option TxType ([Some ex_coinbase, Some ex_coinbase] ! 1) = Some Coinbase
   \<and> TransactionCheck reject_sanity
       \<lparr>Header = Header ex_genesis, Transactions = Slice [Some ex_coinbase, Some ex_coinbase]\<rparr>
       = Return (Some SanityCheckFailed)"
  by (simp add: TransactionCheck_def ex_transfer_def ex_coinbase_def reject_sanity_def
      coinbase_out_of_place_def)

section \<open>The instant of time.Unix\<close>

text \<open>
  An int64 lies between \<open>- 2 ^ 63\<close> and \<open>2 ^ 63 - 1\<close>; adding 62135596800 to it in
  int64 wraps exactly above 9223371974719179007.
\<close>

lemma sint_bounds64:
  "- 9223372036854775808 \<le> sint (w :: 64 word) \<and> sint w \<le> 9223372036854775807"
  using sint_ge [of w] sint_lt [of w] by simp

lemma sint_add_unixToInternal:
  "sint (sec + 62135596800 :: 64 word) =
     (if sint sec \<le> 9223371974719179007 then sint sec + 62135596800
      else sint sec + 62135596800 - 18446744073709551616)"
proof -
  have s: "sint (sec + 62135596800 :: 64 word) = signed_take_bit 63 (sint sec + 62135596800)"
    by (simp add: sint_word_ariths)
  show ?thesis
  proof (cases "sint sec \<le> 9223371974719179007")
    case True
    with sint_bounds64 [of sec]
    have "signed_take_bit 63 (sint sec + 62135596800) = sint sec + 62135596800"
      by (intro signed_take_bit_int_eq_self) simp_all
    with True s show ?thesis by simp
  next
    case False
    with sint_bounds64 [of sec]
    have inside: "signed_take_bit 63 (sint sec + 62135596800 - 18446744073709551616)
        = sint sec + 62135596800 - 18446744073709551616"
      by (intro signed_take_bit_int_eq_self) simp_all
    have "(a - m) mod m = a mod m" for a m :: int
      by simp
    from this [of "sint sec + 62135596800" 18446744073709551616]
    have "signed_take_bit 63 (sint sec + 62135596800 - 18446744073709551616)
        = signed_take_bit 63 (sint sec + 62135596800)"
      by (simp only: signed_take_bit_eq_iff_take_bit_eq take_bit_eq_mod) simp
    with inside s False show ?thesis by simp
  qed
qed

lemma time_Unix_eq:
  "time_Unix sec =
     (if sint sec \<le> 9223371974719179007 then sint sec * Second
      else (sint sec - 18446744073709551616) * Second)"
  by (simp add: time_Unix_def sint_add_unixToInternal)

section \<open>The concrete chain view, evaluated\<close>

lemma ex_ledger_sel:
  "GetHeader (ex_ledger prev pt) h = (if h = 12 then Inr (Some prev) else Inl ''not found'')"
  "GetBlockHash (ex_ledger prev pt) n = (if n = 0 then Inr 10 else Inl ''not found'')"
  "GetBlock (ex_ledger prev pt) h = (if h = 10 then Inr ex_genesis else Inl ''not found'')"
  "GetBlockTime (ex_ledger prev pt) h = (if h = 12 then Inr pt else Inl ''not found'')"
  "GetTransaction (ex_ledger prev pt) h = (if h = 7 then Inr ex_commit else Inl ''not found'')"
  "GetSigner (ex_ledger prev pt) b = Inr (Signer (Header b), [])"
  "Unmarshal (ex_ledger prev pt) bs = (bs, Some ''unexpected EOF'')"
  "GetMiner (ex_ledger prev pt) sc = Inr (sc, [])"
  "DecodePoint (ex_ledger prev pt) bs = Inr bs"
  "Verify (ex_ledger prev pt) pk hs sg = None"
  "Now (ex_ledger prev pt) = 1120000000000"
  "ProposerChangeTime (ex_ledger prev pt) = 60000000000"
  by (simp_all add: ex_ledger_def)

lemma ex_timeSlot: "timeSlot (ex_ledger prev pt) = 60"
  by (simp add: timeSlot_def ex_ledger_sel Second_def signed_divide_int_def)

lemma ex_header_sel:
  "PrevBlockHash (ex_candidate h wt s) = 12" "Height (ex_candidate h wt s) = h"
  "Timestamp (ex_candidate h wt s) = 1100" "WinnerType (ex_candidate h wt s) = wt"
  "Signer (ex_candidate h wt s) = s"
  "Height (ex_prev h wt) = h" "Timestamp (ex_prev h wt) = 1000"
  "WinnerType (ex_prev h wt) = wt" "WinnerHash (ex_prev h wt) = 7"
  "Timestamp (Header ex_genesis) = 1000" "Signer (Header ex_genesis) = [1]"
  "Payload ex_commit = CommitPayload \<lparr>SigChain = [9]\<rparr>"
  by (simp_all add: ex_candidate_def ex_prev_def ex_genesis_def ex_commit_def)

lemma ex_reaches_winner_check:
  "reaches_winner_check (ex_ledger (ex_prev 2 wt) pt) (ex_candidate 3 wt' s) (ex_prev 2 wt)"
  "reaches_winner_check (ex_ledger (ex_prev 3 wt) pt) (ex_candidate 4 wt' s) (ex_prev 3 wt)"
  by (simp_all add: reaches_winner_check_def ex_ledger_sel ex_header_sel time_Unix_eq
      time_Now_def TimestampTolerance_def Second_def)

text \<open>The election and the phases before it, one lemma for each path.\<close>

lemma electProposer_fallback:
  assumes "GetBlockHash L 0 = Inr h0" and "GetBlock L h0 = Inr block0"
    and "GetBlockTime L (PrevBlockHash header) = Inr prevTimestamp"
    and "sint (timeSlot L) \<le> sint (timeDiff receiveTime prevTimestamp (Timestamp (Header block0)))"
  shows "electProposer L header prevHeader receiveTime = or_return (GetSigner L block0) Inr"
  using assms by (simp add: electProposer_def fallback_proposer_def or_return_def)

lemma electProposer_normal:
  assumes "GetBlockHash L 0 = Inr h0" and "GetBlock L h0 = Inr block0"
    and "GetBlockTime L (PrevBlockHash header) = Inr prevTimestamp"
    and "sint (timeDiff receiveTime prevTimestamp (Timestamp (Header block0))) < sint (timeSlot L)"
  shows "electProposer L header prevHeader receiveTime = normal_proposer L block0 prevHeader"
  using assms by (simp add: electProposer_def or_return_def)

lemma HeaderCheck_at_election:
  assumes "reaches_election L header prevHeader"
  shows "HeaderCheck L header receiveTime =
     (case electProposer L header prevHeader receiveTime of
        Inl err \<Rightarrow> Some err
      | Inr (publicKey, chordID) \<Rightarrow> verify_signer L header publicKey)"
  using assms
  by (auto simp: HeaderCheck_def reaches_election_def reaches_winner_check_def)

lemma or_return_not_InvalidWinnerType:
  assumes "\<And>x. k x \<noteq> Inl InvalidWinnerType"
  shows "or_return r k \<noteq> Inl InvalidWinnerType"
  using assms by (cases r) (simp_all add: or_return_def)

lemma fallback_proposer_not_InvalidWinnerType:
  "fallback_proposer L \<noteq> Inl InvalidWinnerType"
  unfolding fallback_proposer_def
  by (intro or_return_not_InvalidWinnerType) simp

lemma normal_proposer_not_InvalidWinnerType:
  "normal_proposer L g prevHeader \<noteq> Inl InvalidWinnerType"
  by (simp add: normal_proposer_def or_return_def Let_def
      split: WinnerType.splits sum.splits Payload.splits)

lemma electProposer_not_InvalidWinnerType:
  "electProposer L header prevHeader receiveTime \<noteq> Inl InvalidWinnerType"
  unfolding electProposer_def
  by (intro or_return_not_InvalidWinnerType)
     (simp add: fallback_proposer_not_InvalidWinnerType normal_proposer_not_InvalidWinnerType)

lemma verify_signer_not_InvalidWinnerType:
  "verify_signer L header pk \<noteq> Some InvalidWinnerType"
  by (simp add: verify_signer_def split: sum.splits option.splits)

lemma HeaderCheck_InvalidWinnerType_only:
  assumes "HeaderCheck L header receiveTime = Some InvalidWinnerType"
  shows "WinnerType header = GenesisSigner \<and> Height header \<ge> GenesisBlockProposedHeight"
proof -
  from assms have nz: "Height header \<noteq> 0"
    by (auto simp: HeaderCheck_def)
  from assms nz obtain prevHeader where
    p: "GetHeader L (PrevBlockHash header) = Inr (Some prevHeader)"
    by (auto simp: HeaderCheck_def split: sum.splits option.splits)
  have e: "(case electProposer L header prevHeader receiveTime of
        Inl err \<Rightarrow> Some err
      | Inr (publicKey, chordID) \<Rightarrow> verify_signer L header publicKey) \<noteq> Some InvalidWinnerType"
    using electProposer_not_InvalidWinnerType [of L header prevHeader receiveTime]
      verify_signer_not_InvalidWinnerType [of L header]
    by (auto split: sum.splits prod.splits)
  from assms nz p e show ?thesis
    by (auto simp: HeaderCheck_def split: if_splits)
qed

lemma ex_reaches_election:
  "reaches_election (ex_ledger (ex_prev 2 wt) pt) (ex_candidate 3 wt' s) (ex_prev 2 wt)"
  by (simp add: reaches_election_def ex_reaches_winner_check ex_header_sel
      GenesisBlockProposedHeight_def)

section \<open>Properties of HeaderCheck\<close>

text \<open>
  C3. When the election takes the branch of line 118 (\<open>timeDiff >= timeSlot\<close>), its
  result is the signer of the block stored at height 0 (or the error \<open>GetSigner\<close>
  gives for that block): neither the candidate header, nor its predecessor, nor the
  receive time, nor the number of elapsed slots enters the result.
\<close>

theorem fallback_proposer_is_height_0_signer:
  assumes "GetBlockHash L 0 = Inr h0" and "GetBlock L h0 = Inr block0"
    and "GetBlockTime L (PrevBlockHash header) = Inr prevTimestamp"
    and "sint (timeSlot L) \<le> sint (timeDiff receiveTime prevTimestamp (Timestamp (Header block0)))"
  shows "electProposer L header prevHeader receiveTime = or_return (GetSigner L block0) Inr"
  using assms by (rule electProposer_fallback)

text \<open>
  The theorem on the concrete chain view, the predecessor's block time 1010 and the
  receive time 1120: 110 seconds have passed, the slot is 60 seconds, and the expected
  signer is the genesis signer \<open>[1]\<close> although the predecessor names a sigchain winner.
\<close>

theorem fallback_proposer_is_height_0_signer_witness:
  "GetBlockHash (ex_ledger (ex_prev 2 TxnSigner) 1010) 0 = Inr 10
   \<and> GetBlock (ex_ledger (ex_prev 2 TxnSigner) 1010) 10 = Inr ex_genesis
   \<and> sint (timeSlot (ex_ledger (ex_prev 2 TxnSigner) 1010))
        \<le> sint (timeDiff 1120 1010 (Timestamp (Header ex_genesis)))
   \<and> electProposer (ex_ledger (ex_prev 2 TxnSigner) 1010) (ex_candidate 3 TxnSigner [9])
        (ex_prev 2 TxnSigner) 1120 = Inr ([1], [])"
proof -
  have slot: "sint (timeSlot (ex_ledger (ex_prev 2 TxnSigner) 1010))
        \<le> sint (timeDiff 1120 1010 (Timestamp (Header ex_genesis)))"
    by (simp add: ex_timeSlot timeDiff_def ex_header_sel)
  have "electProposer (ex_ledger (ex_prev 2 TxnSigner) 1010) (ex_candidate 3 TxnSigner [9])
        (ex_prev 2 TxnSigner) 1120
        = or_return (GetSigner (ex_ledger (ex_prev 2 TxnSigner) 1010) ex_genesis) Inr"
    by (rule fallback_proposer_is_height_0_signer [where ?h0.0 = 10 and prevTimestamp = 1010])
       (simp_all add: ex_ledger_sel ex_header_sel ex_timeSlot timeDiff_def)
  with slot show ?thesis
    by (simp add: ex_ledger_sel ex_header_sel or_return_def)
qed

text \<open>
  C2, as the code has it. In the scenario (predecessor at height 2, its block time equal
  to the genesis timestamp, 120 seconds between block time and receive time, slot of 60
  seconds) line 109 sets \<open>timeDiff = 0\<close>, which is below the slot of 60: the election
  takes the \<open>switch\<close> of line 144 (the normal path) and not the branch of line 118.
  There the predecessor's winner type decides. For \<open>GenesisSigner\<close> the expected signer
  is the signer of the block at height 0, and a candidate that reaches the election with
  any other signer is answered \<open>WrongSigner\<close>; for \<open>TxnSigner\<close> with a \<open>Commit\<close>
  transaction the expected signer is the miner of the winning sigchain.
\<close>

theorem genesis_timestamp_election:
  assumes "GetBlockHash L 0 = Inr h0" and "GetBlock L h0 = Inr block0"
    and "GetBlockTime L (PrevBlockHash header) = Inr prevTimestamp"
    and "Height prevHeader = 2"
    and "prevTimestamp = Timestamp (Header block0)"
    and "sint receiveTime - sint prevTimestamp = 120"
    and "ProposerChangeTime L = 60000000000"
  shows "timeDiff receiveTime prevTimestamp (Timestamp (Header block0)) = 0
    \<and> timeSlot L = 60
    \<and> electProposer L header prevHeader receiveTime = normal_proposer L block0 prevHeader
    \<and> (WinnerType prevHeader = GenesisSigner \<longrightarrow>
          electProposer L header prevHeader receiveTime = or_return (GetSigner L block0) Inr
          \<and> (\<forall>publicKey chordID. reaches_election L header prevHeader
                \<and> GetSigner L block0 = Inr (publicKey, chordID) \<and> Signer header \<noteq> publicKey
              \<longrightarrow> HeaderCheck L header receiveTime = Some (WrongSigner (Signer header))))
    \<and> (WinnerType prevHeader = TxnSigner \<longrightarrow>
          (\<forall>txn payload. GetTransaction L (WinnerHash prevHeader) = Inr txn
                \<and> Payload txn = CommitPayload payload
              \<longrightarrow> electProposer L header prevHeader receiveTime
                   = or_return (GetMiner L (fst (Unmarshal L (SigChain payload)))) Inr))"
proof -
  have diff: "timeDiff receiveTime prevTimestamp (Timestamp (Header block0)) = 0"
    using assms(5) by (simp add: timeDiff_def)
  have slot: "timeSlot L = 60"
    using assms(7) by (simp add: timeSlot_def Second_def signed_divide_int_def)
  have "sint (timeDiff receiveTime prevTimestamp (Timestamp (Header block0))) < sint (timeSlot L)"
    by (simp add: diff slot)
  from electProposer_normal [OF assms(1,2,3) this]
  have n: "electProposer L header prevHeader receiveTime = normal_proposer L block0 prevHeader" .
  have g: "electProposer L header prevHeader receiveTime = or_return (GetSigner L block0) Inr"
    if "WinnerType prevHeader = GenesisSigner"
    using n that by (simp add: normal_proposer_def)
  have w: "HeaderCheck L header receiveTime = Some (WrongSigner (Signer header))"
    if "WinnerType prevHeader = GenesisSigner"
      and a: "reaches_election L header prevHeader
          \<and> GetSigner L block0 = Inr (publicKey, chordID) \<and> Signer header \<noteq> publicKey"
    for publicKey chordID
  proof -
    from a have "HeaderCheck L header receiveTime = verify_signer L header publicKey"
      using HeaderCheck_at_election [of L header prevHeader receiveTime] g [OF that(1)]
      by (simp add: or_return_def)
    with a show ?thesis
      by (auto simp: verify_signer_def)
  qed
  have t: "electProposer L header prevHeader receiveTime
            = or_return (GetMiner L (fst (Unmarshal L (SigChain payload)))) Inr"
    if "WinnerType prevHeader = TxnSigner"
      and "GetTransaction L (WinnerHash prevHeader) = Inr txn \<and> Payload txn = CommitPayload payload"
    for txn payload
    using n that by (simp add: normal_proposer_def or_return_def)
  from diff slot n g w t show ?thesis
    by blast
qed

text \<open>
  The theorem on the concrete chain view, once with a \<open>GenesisSigner\<close> predecessor and
  once with a \<open>TxnSigner\<close> predecessor.
\<close>

theorem genesis_timestamp_election_witness:
  "timeDiff 1120 1000 (Timestamp (Header ex_genesis)) = 0
   \<and> electProposer (ex_ledger (ex_prev 2 GenesisSigner) 1000) (ex_candidate 3 TxnSigner [9])
      (ex_prev 2 GenesisSigner) 1120 = Inr ([1], [])
   \<and> HeaderCheck (ex_ledger (ex_prev 2 GenesisSigner) 1000) (ex_candidate 3 TxnSigner [9]) 1120
       = Some (WrongSigner [9])
   \<and> electProposer (ex_ledger (ex_prev 2 TxnSigner) 1000) (ex_candidate 3 TxnSigner [9])
      (ex_prev 2 TxnSigner) 1120 = Inr ([9], [])"
proof -
  let ?L = "ex_ledger (ex_prev 2 GenesisSigner) 1000"
  let ?h = "ex_candidate 3 TxnSigner [9]"
  let ?p = "ex_prev 2 GenesisSigner"
  let ?L' = "ex_ledger (ex_prev 2 TxnSigner) 1000"
  let ?p' = "ex_prev 2 TxnSigner"
  have t: "timeDiff 1120 1000 (Timestamp (Header ex_genesis)) = 0
    \<and> timeSlot ?L = 60
    \<and> electProposer ?L ?h ?p 1120 = normal_proposer ?L ex_genesis ?p
    \<and> (WinnerType ?p = GenesisSigner \<longrightarrow>
          electProposer ?L ?h ?p 1120 = or_return (GetSigner ?L ex_genesis) Inr
          \<and> (\<forall>publicKey chordID. reaches_election ?L ?h ?p
                \<and> GetSigner ?L ex_genesis = Inr (publicKey, chordID) \<and> Signer ?h \<noteq> publicKey
              \<longrightarrow> HeaderCheck ?L ?h 1120 = Some (WrongSigner (Signer ?h))))
    \<and> (WinnerType ?p = TxnSigner \<longrightarrow>
          (\<forall>txn payload. GetTransaction ?L (WinnerHash ?p) = Inr txn
                \<and> Payload txn = CommitPayload payload
              \<longrightarrow> electProposer ?L ?h ?p 1120
                   = or_return (GetMiner ?L (fst (Unmarshal ?L (SigChain payload)))) Inr))"
    by (rule genesis_timestamp_election [where ?h0.0 = 10 and prevTimestamp = 1000])
       (simp_all add: ex_ledger_sel ex_header_sel)
  have t': "timeDiff 1120 1000 (Timestamp (Header ex_genesis)) = 0
    \<and> timeSlot ?L' = 60
    \<and> electProposer ?L' ?h ?p' 1120 = normal_proposer ?L' ex_genesis ?p'
    \<and> (WinnerType ?p' = GenesisSigner \<longrightarrow>
          electProposer ?L' ?h ?p' 1120 = or_return (GetSigner ?L' ex_genesis) Inr
          \<and> (\<forall>publicKey chordID. reaches_election ?L' ?h ?p'
                \<and> GetSigner ?L' ex_genesis = Inr (publicKey, chordID) \<and> Signer ?h \<noteq> publicKey
              \<longrightarrow> HeaderCheck ?L' ?h 1120 = Some (WrongSigner (Signer ?h))))
    \<and> (WinnerType ?p' = TxnSigner \<longrightarrow>
          (\<forall>txn payload. GetTransaction ?L' (WinnerHash ?p') = Inr txn
                \<and> Payload txn = CommitPayload payload
              \<longrightarrow> electProposer ?L' ?h ?p' 1120
                   = or_return (GetMiner ?L' (fst (Unmarshal ?L' (SigChain payload)))) Inr))"
    by (rule genesis_timestamp_election [where ?h0.0 = 10 and prevTimestamp = 1000])
       (simp_all add: ex_ledger_sel ex_header_sel)
  from t have d: "timeDiff 1120 1000 (Timestamp (Header ex_genesis)) = 0"
    by blast
  have wg: "WinnerType ?p = GenesisSigner"
    by (simp add: ex_header_sel)
  from t wg have "electProposer ?L ?h ?p 1120 = or_return (GetSigner ?L ex_genesis) Inr"
    by blast
  then have e: "electProposer ?L ?h ?p 1120 = Inr ([1], [])"
    by (simp add: ex_ledger_sel ex_header_sel or_return_def)
  from t wg have "reaches_election ?L ?h ?p
      \<and> GetSigner ?L ex_genesis = Inr ([1], []) \<and> Signer ?h \<noteq> [1]
        \<longrightarrow> HeaderCheck ?L ?h 1120 = Some (WrongSigner (Signer ?h))"
    by blast
  then have h: "HeaderCheck ?L ?h 1120 = Some (WrongSigner [9])"
    by (simp add: ex_reaches_election ex_ledger_sel ex_header_sel)
  have wt: "WinnerType ?p' = TxnSigner"
    by (simp add: ex_header_sel)
  have "GetTransaction ?L' (WinnerHash ?p') = Inr ex_commit
      \<and> Payload ex_commit = CommitPayload \<lparr>SigChain = [9]\<rparr>"
    by (simp add: ex_ledger_sel ex_header_sel)
  with t' wt have "electProposer ?L' ?h ?p' 1120
      = or_return (GetMiner ?L' (fst (Unmarshal ?L' (SigChain \<lparr>SigChain = [9]\<rparr>)))) Inr"
    by blast
  then have e': "electProposer ?L' ?h ?p' 1120 = Inr ([9], [])"
    by (simp add: ex_ledger_sel or_return_def)
  from d e h e' show ?thesis by simp
qed

text \<open>
  C2 as the specification states it fails: in the same scenario with a predecessor of
  winner type \<open>TxnSigner\<close> the expected signer is the miner \<open>[9]\<close> of the winning
  sigchain, not the signer \<open>[1]\<close> of the block at height 0, and the candidate signed
  by \<open>[9]\<close> is accepted.
\<close>

theorem fallback_scenario_counterexample:
  "Height (ex_prev 2 TxnSigner) = 2
   \<and> GetBlockTime (ex_ledger (ex_prev 2 TxnSigner) 1000)
        (PrevBlockHash (ex_candidate 3 TxnSigner [9])) = Inr (Timestamp (Header ex_genesis))
   \<and> sint (1120 :: 64 word) - sint (1000 :: 64 word) = 120
   \<and> timeSlot (ex_ledger (ex_prev 2 TxnSigner) 1000) = 60
   \<and> GetBlockHash (ex_ledger (ex_prev 2 TxnSigner) 1000) 0 = Inr 10
   \<and> GetBlock (ex_ledger (ex_prev 2 TxnSigner) 1000) 10 = Inr ex_genesis
   \<and> GetSigner (ex_ledger (ex_prev 2 TxnSigner) 1000) ex_genesis = Inr ([1], [])
   \<and> electProposer (ex_ledger (ex_prev 2 TxnSigner) 1000) (ex_candidate 3 TxnSigner [9])
        (ex_prev 2 TxnSigner) 1120 = Inr ([9], [])
   \<and> HeaderCheck (ex_ledger (ex_prev 2 TxnSigner) 1000) (ex_candidate 3 TxnSigner [9]) 1120
        = None"
proof -
  have e: "electProposer (ex_ledger (ex_prev 2 TxnSigner) 1000) (ex_candidate 3 TxnSigner [9])
        (ex_prev 2 TxnSigner) 1120 = Inr ([9], [])"
    by (simp add: electProposer_def or_return_def ex_timeSlot timeDiff_def normal_proposer_def
        ex_ledger_sel ex_header_sel)
  have "HeaderCheck (ex_ledger (ex_prev 2 TxnSigner) 1000) (ex_candidate 3 TxnSigner [9]) 1120
        = None"
    using HeaderCheck_at_election [OF ex_reaches_election, of TxnSigner 1000 TxnSigner "[9]" 1120]
    by (simp add: e verify_signer_def ex_ledger_sel ex_header_sel)
  with e show ?thesis
    by (simp add: ex_ledger_sel ex_header_sel ex_timeSlot)
qed

text \<open>
  C4, as the code has it. In the \<open>switch\<close> of line 144 a predecessor whose winner type
  is neither \<open>GenesisSigner\<close> nor \<open>TxnSigner\<close> matches no case: the expected public key
  stays empty, \<open>HeaderCheck\<close> goes on to the signer comparison of line 176, never
  returns \<open>InvalidWinnerType\<close>, and returns \<open>WrongSigner\<close> whenever the candidate's
  signer is not empty.
\<close>

theorem unknown_winner_type_election:
  assumes "reaches_election L header prevHeader"
    and "GetBlockHash L 0 = Inr h0" and "GetBlock L h0 = Inr block0"
    and "GetBlockTime L (PrevBlockHash header) = Inr prevTimestamp"
    and "sint (timeDiff receiveTime prevTimestamp (Timestamp (Header block0))) < sint (timeSlot L)"
    and "WinnerType prevHeader \<noteq> GenesisSigner" and "WinnerType prevHeader \<noteq> TxnSigner"
  shows "electProposer L header prevHeader receiveTime = Inr ([], [])
    \<and> HeaderCheck L header receiveTime = verify_signer L header []
    \<and> HeaderCheck L header receiveTime \<noteq> Some InvalidWinnerType
    \<and> (Signer header \<noteq> []
         \<longrightarrow> HeaderCheck L header receiveTime = Some (WrongSigner (Signer header)))"
proof -
  from assms(6,7) obtain n where "WinnerType prevHeader = OtherWinnerType n"
    by (cases "WinnerType prevHeader") auto
  then have e: "electProposer L header prevHeader receiveTime = Inr ([], [])"
    using electProposer_normal [OF assms(2,3,4,5)] by (simp add: normal_proposer_def)
  then have h: "HeaderCheck L header receiveTime = verify_signer L header []"
    using HeaderCheck_at_election [OF assms(1), of receiveTime] by simp
  have "Signer header \<noteq> [] \<longrightarrow> verify_signer L header [] = Some (WrongSigner (Signer header))"
    by (auto simp: verify_signer_def)
  with e h show ?thesis
    using verify_signer_not_InvalidWinnerType [of L header "[]"] by simp
qed

text \<open>
  The theorem on the concrete chain view with a predecessor of winner type 2, for a
  candidate with timestamp 1100 and for one with the largest int64 as timestamp, which
  line 84 lets through because \<open>time.Unix\<close> wraps around.
\<close>

theorem unknown_winner_type_election_witness:
  "electProposer (ex_ledger (ex_prev 2 (OtherWinnerType 2)) 1000) (ex_candidate 3 TxnSigner [9])
      (ex_prev 2 (OtherWinnerType 2)) 1120 = Inr ([], [])
   \<and> HeaderCheck (ex_ledger (ex_prev 2 (OtherWinnerType 2)) 1000)
        (ex_candidate 3 TxnSigner [9]) 1120 = Some (WrongSigner [9])
   \<and> reaches_election (ex_ledger (ex_prev 2 (OtherWinnerType 2)) 1000)
        ((ex_candidate 3 TxnSigner [9])\<lparr>Timestamp := 9223372036854775807\<rparr>)
        (ex_prev 2 (OtherWinnerType 2))
   \<and> HeaderCheck (ex_ledger (ex_prev 2 (OtherWinnerType 2)) 1000)
        ((ex_candidate 3 TxnSigner [9])\<lparr>Timestamp := 9223372036854775807\<rparr>) 1120
        = Some (WrongSigner [9])"
proof -
  let ?L = "ex_ledger (ex_prev 2 (OtherWinnerType 2)) 1000"
  let ?p = "ex_prev 2 (OtherWinnerType 2)"
  let ?late = "(ex_candidate 3 TxnSigner [9])\<lparr>Timestamp := 9223372036854775807\<rparr>"
  have plain: "electProposer ?L (ex_candidate 3 TxnSigner [9]) ?p 1120 = Inr ([], [])
      \<and> HeaderCheck ?L (ex_candidate 3 TxnSigner [9]) 1120 = Some (WrongSigner [9])"
    using unknown_winner_type_election [of ?L "ex_candidate 3 TxnSigner [9]" ?p 10 ex_genesis
        1000 1120]
    by (simp add: ex_reaches_election ex_ledger_sel ex_header_sel ex_timeSlot timeDiff_def
        verify_signer_def)
  have r: "reaches_election ?L ?late ?p"
    by (simp add: reaches_election_def reaches_winner_check_def ex_ledger_sel ex_header_sel
        time_Unix_eq time_Now_def TimestampTolerance_def Second_def
        GenesisBlockProposedHeight_def)
  have "HeaderCheck ?L ?late 1120 = Some (WrongSigner [9])"
    using unknown_winner_type_election [of ?L ?late ?p 10 ex_genesis 1000 1120] r
    by (simp add: ex_ledger_sel ex_header_sel ex_timeSlot timeDiff_def verify_signer_def)
  with plain r show ?thesis by simp
qed

text \<open>
  C4 as the specification states it fails: with a predecessor of winner type 2 in the
  normal path, the candidate signed by \<open>[9]\<close> is answered \<open>WrongSigner\<close>, and the
  candidate with an empty signer is passed to the crypto package and accepted here.
\<close>

theorem unknown_winner_type_counterexample:
  "reaches_election (ex_ledger (ex_prev 2 (OtherWinnerType 2)) 1000)
      (ex_candidate 3 TxnSigner [9]) (ex_prev 2 (OtherWinnerType 2))
   \<and> sint (timeDiff 1120 1000 (Timestamp (Header ex_genesis)))
        < sint (timeSlot (ex_ledger (ex_prev 2 (OtherWinnerType 2)) 1000))
   \<and> WinnerType (ex_prev 2 (OtherWinnerType 2)) \<noteq> GenesisSigner
   \<and> WinnerType (ex_prev 2 (OtherWinnerType 2)) \<noteq> TxnSigner
   \<and> HeaderCheck (ex_ledger (ex_prev 2 (OtherWinnerType 2)) 1000)
        (ex_candidate 3 TxnSigner [9]) 1120 = Some (WrongSigner [9])
   \<and> HeaderCheck (ex_ledger (ex_prev 2 (OtherWinnerType 2)) 1000)
        (ex_candidate 3 TxnSigner []) 1120 = None"
proof -
  have e: "electProposer (ex_ledger (ex_prev 2 (OtherWinnerType 2)) 1000)
      (ex_candidate 3 TxnSigner s) (ex_prev 2 (OtherWinnerType 2)) 1120 = Inr ([], [])" for s
    by (simp add: electProposer_def or_return_def ex_timeSlot timeDiff_def normal_proposer_def
        ex_ledger_sel ex_header_sel)
  have h: "HeaderCheck (ex_ledger (ex_prev 2 (OtherWinnerType 2)) 1000)
        (ex_candidate 3 TxnSigner s) 1120
      = verify_signer (ex_ledger (ex_prev 2 (OtherWinnerType 2)) 1000)
          (ex_candidate 3 TxnSigner s) []" for s
    using HeaderCheck_at_election [OF ex_reaches_election,
        of "OtherWinnerType 2" 1000 TxnSigner s 1120]
    by (simp add: e)
  show ?thesis
    by (simp add: h verify_signer_def ex_reaches_election ex_ledger_sel ex_header_sel
        ex_timeSlot timeDiff_def)
qed

text \<open>
  C5, as the code has it. \<open>HeaderCheck\<close> returns \<open>InvalidWinnerType\<close> only for a
  header of winner type \<open>GenesisSigner\<close> at height 4 (\<open>GenesisBlockProposedHeight\<close>) or
  more; and for a header that passes lines 70--89 (it is not the genesis header, its
  predecessor is found, the heights are consecutive, the timestamp is not postdated and
  is later than the predecessor's) it returns \<open>InvalidWinnerType\<close> exactly when the
  winner type is \<open>GenesisSigner\<close> and the height is at least 4.
\<close>

theorem winner_type_domain:
  "(HeaderCheck L header receiveTime = Some InvalidWinnerType
        \<longrightarrow> WinnerType header = GenesisSigner \<and> Height header \<ge> 4)
   \<and> (reaches_winner_check L header prevHeader
        \<longrightarrow> (HeaderCheck L header receiveTime = Some InvalidWinnerType
               \<longleftrightarrow> WinnerType header = GenesisSigner \<and> Height header \<ge> 4))"
proof -
  have g: "GenesisBlockProposedHeight = 4"
    by (simp add: GenesisBlockProposedHeight_def)
  have only: "HeaderCheck L header receiveTime = Some InvalidWinnerType
        \<longrightarrow> WinnerType header = GenesisSigner \<and> Height header \<ge> 4"
    using HeaderCheck_InvalidWinnerType_only [of L header receiveTime] g by simp
  have fails: "HeaderCheck L header receiveTime = Some InvalidWinnerType"
    if "reaches_winner_check L header prevHeader"
      and "WinnerType header = GenesisSigner \<and> Height header \<ge> 4"
    using that g by (auto simp: HeaderCheck_def reaches_winner_check_def)
  from only fails show ?thesis by blast
qed

text \<open>
  The theorem at heights 3 and 4 with winner type \<open>GenesisSigner\<close>: at height 3 the
  answer is not \<open>InvalidWinnerType\<close>, at height 4 it is; and at height 4 with the
  largest int64 as timestamp, for which \<open>time.Unix\<close> wraps around and the test of line
  84 lets the header through to line 90.
\<close>

theorem winner_type_domain_witness:
  "reaches_winner_check (ex_ledger (ex_prev 2 GenesisSigner) 1000)
      (ex_candidate 3 GenesisSigner [1]) (ex_prev 2 GenesisSigner)
   \<and> HeaderCheck (ex_ledger (ex_prev 2 GenesisSigner) 1000)
        (ex_candidate 3 GenesisSigner [1]) 1120 \<noteq> Some InvalidWinnerType
   \<and> reaches_winner_check (ex_ledger (ex_prev 3 GenesisSigner) 1000)
      (ex_candidate 4 GenesisSigner [1]) (ex_prev 3 GenesisSigner)
   \<and> HeaderCheck (ex_ledger (ex_prev 3 GenesisSigner) 1000)
        (ex_candidate 4 GenesisSigner [1]) 1120 = Some InvalidWinnerType
   \<and> reaches_winner_check (ex_ledger (ex_prev 3 GenesisSigner) 1000)
      ((ex_candidate 4 GenesisSigner [1])\<lparr>Timestamp := 9223372036854775807\<rparr>)
      (ex_prev 3 GenesisSigner)
   \<and> HeaderCheck (ex_ledger (ex_prev 3 GenesisSigner) 1000)
        ((ex_candidate 4 GenesisSigner [1])\<lparr>Timestamp := 9223372036854775807\<rparr>) 1120
        = Some InvalidWinnerType"
proof -
  have three: "HeaderCheck (ex_ledger (ex_prev 2 GenesisSigner) 1000)
        (ex_candidate 3 GenesisSigner [1]) 1120 \<noteq> Some InvalidWinnerType"
    using winner_type_domain [of "ex_ledger (ex_prev 2 GenesisSigner) 1000"
      "ex_candidate 3 GenesisSigner [1]" 1120 "ex_prev 2 GenesisSigner"]
    by (simp add: ex_header_sel)
  have four: "HeaderCheck (ex_ledger (ex_prev 3 GenesisSigner) 1000)
        (ex_candidate 4 GenesisSigner [1]) 1120 = Some InvalidWinnerType"
    using winner_type_domain [of "ex_ledger (ex_prev 3 GenesisSigner) 1000"
      "ex_candidate 4 GenesisSigner [1]" 1120 "ex_prev 3 GenesisSigner"]
    by (simp add: ex_header_sel ex_reaches_winner_check)
  have late: "reaches_winner_check (ex_ledger (ex_prev 3 GenesisSigner) 1000)
      ((ex_candidate 4 GenesisSigner [1])\<lparr>Timestamp := 9223372036854775807\<rparr>)
      (ex_prev 3 GenesisSigner)"
    by (simp add: reaches_winner_check_def ex_ledger_sel ex_header_sel time_Unix_eq
        time_Now_def TimestampTolerance_def Second_def)
  have wrapped: "HeaderCheck (ex_ledger (ex_prev 3 GenesisSigner) 1000)
        ((ex_candidate 4 GenesisSigner [1])\<lparr>Timestamp := 9223372036854775807\<rparr>) 1120
        = Some InvalidWinnerType"
    using winner_type_domain [of "ex_ledger (ex_prev 3 GenesisSigner) 1000"
      "(ex_candidate 4 GenesisSigner [1])\<lparr>Timestamp := 9223372036854775807\<rparr>" 1120
      "ex_prev 3 GenesisSigner"] late
    by (simp add: ex_header_sel)
  from three four late wrapped show ?thesis
    by (simp add: ex_reaches_winner_check)
qed

text \<open>
  C5 as the specification states it fails: a header of winner type \<open>GenesisSigner\<close> at
  height 4 whose predecessor is not in the store is answered \<open>PrevMissing\<close> by line 76,
  before line 90 is reached; it is not answered \<open>InvalidWinnerType\<close>.
\<close>

theorem winner_type_domain_counterexample:
  "WinnerType ((ex_candidate 4 GenesisSigner [1])\<lparr>PrevBlockHash := 13\<rparr>) = GenesisSigner
   \<and> Height ((ex_candidate 4 GenesisSigner [1])\<lparr>PrevBlockHash := 13\<rparr>) \<ge> 4
   \<and> HeaderCheck (ex_ledger (ex_prev 3 GenesisSigner) 1000)
        ((ex_candidate 4 GenesisSigner [1])\<lparr>PrevBlockHash := 13\<rparr>) 1120 = Some PrevMissing"
  by (simp add: HeaderCheck_def ex_ledger_sel ex_header_sel)

text \<open>
  The error that \<open>proto.Unmarshal\<close> returns does not enter the election: replacing it
  by any other leaves every result as it is.
\<close>

lemma fallback_proposer_Unmarshal:
  "fallback_proposer (L\<lparr>Unmarshal := u\<rparr>) = fallback_proposer L"
  by (simp add: fallback_proposer_def)

lemma normal_proposer_Unmarshal_fst:
  "normal_proposer (L\<lparr>Unmarshal := \<lambda>b. (fst (Unmarshal L b), e b)\<rparr>) genesisBlock prevHeader
     = normal_proposer L genesisBlock prevHeader"
  by (simp add: normal_proposer_def or_return_def Let_def
      split: WinnerType.splits sum.splits Payload.splits)

lemma electProposer_Unmarshal_fst:
  "electProposer (L\<lparr>Unmarshal := \<lambda>b. (fst (Unmarshal L b), e b)\<rparr>) header prevHeader
        receiveTime
      = electProposer L header prevHeader receiveTime"
  by (simp add: electProposer_def timeSlot_def fallback_proposer_Unmarshal
      normal_proposer_Unmarshal_fst cong: if_cong)

text \<open>
  C10. In the normal path with a predecessor of winner type \<open>TxnSigner\<close>, a failed
  transaction lookup is returned as it is, and for a \<open>Commit\<close> payload the election is
  exactly what \<open>GetMiner\<close> gives on the sigchain that \<open>proto.Unmarshal\<close> left behind:
  the error of \<open>proto.Unmarshal\<close> is dropped (line 162), so the election and
  \<open>HeaderCheck\<close> give the same answer whatever that error is.
\<close>

theorem sigchain_decode_error_discarded:
  "(GetBlockHash L 0 = Inr h0 \<and> GetBlock L h0 = Inr block0
      \<and> GetBlockTime L (PrevBlockHash header) = Inr prevTimestamp
      \<and> sint (timeDiff receiveTime prevTimestamp (Timestamp (Header block0))) < sint (timeSlot L)
      \<and> WinnerType prevHeader = TxnSigner
    \<longrightarrow> (\<forall>err. GetTransaction L (WinnerHash prevHeader) = Inl err
            \<longrightarrow> electProposer L header prevHeader receiveTime = Inl (Upstream err))
       \<and> (\<forall>txn payload. GetTransaction L (WinnerHash prevHeader) = Inr txn
              \<and> Payload txn = CommitPayload payload
            \<longrightarrow> electProposer L header prevHeader receiveTime
                 = or_return (GetMiner L (fst (Unmarshal L (SigChain payload)))) Inr))
   \<and> electProposer (L\<lparr>Unmarshal := \<lambda>b. (fst (Unmarshal L b), e b)\<rparr>) header prevHeader
        receiveTime
      = electProposer L header prevHeader receiveTime
   \<and> HeaderCheck (L\<lparr>Unmarshal := \<lambda>b. (fst (Unmarshal L b), e b)\<rparr>) header receiveTime
      = HeaderCheck L header receiveTime"
proof (intro conjI impI allI)
  fix err
  assume a: "GetBlockHash L 0 = Inr h0 \<and> GetBlock L h0 = Inr block0
      \<and> GetBlockTime L (PrevBlockHash header) = Inr prevTimestamp
      \<and> sint (timeDiff receiveTime prevTimestamp (Timestamp (Header block0))) < sint (timeSlot L)
      \<and> WinnerType prevHeader = TxnSigner"
    and b: "GetTransaction L (WinnerHash prevHeader) = Inl err"
  from a have "electProposer L header prevHeader receiveTime = normal_proposer L block0 prevHeader"
    by (simp add: electProposer_normal)
  with a b show "electProposer L header prevHeader receiveTime = Inl (Upstream err)"
    by (simp add: normal_proposer_def or_return_def)
next
  fix txn payload
  assume a: "GetBlockHash L 0 = Inr h0 \<and> GetBlock L h0 = Inr block0
      \<and> GetBlockTime L (PrevBlockHash header) = Inr prevTimestamp
      \<and> sint (timeDiff receiveTime prevTimestamp (Timestamp (Header block0))) < sint (timeSlot L)
      \<and> WinnerType prevHeader = TxnSigner"
    and b: "GetTransaction L (WinnerHash prevHeader) = Inr txn
              \<and> Payload txn = CommitPayload payload"
  from a have "electProposer L header prevHeader receiveTime = normal_proposer L block0 prevHeader"
    by (simp add: electProposer_normal)
  with a b show "electProposer L header prevHeader receiveTime
                 = or_return (GetMiner L (fst (Unmarshal L (SigChain payload)))) Inr"
    by (simp add: normal_proposer_def or_return_def)
next
  show "electProposer (L\<lparr>Unmarshal := \<lambda>b. (fst (Unmarshal L b), e b)\<rparr>) header prevHeader
        receiveTime
      = electProposer L header prevHeader receiveTime"
    by (rule electProposer_Unmarshal_fst)
next
  show "HeaderCheck (L\<lparr>Unmarshal := \<lambda>b. (fst (Unmarshal L b), e b)\<rparr>) header receiveTime
      = HeaderCheck L header receiveTime"
    by (simp add: HeaderCheck_def verify_signer_def electProposer_Unmarshal_fst
        cong: if_cong sum.case_cong option.case_cong)
qed

text \<open>
  The theorem on the concrete chain view, whose decoder reports "unexpected EOF" on
  every input: the election still yields the miner \<open>[9]\<close>.
\<close>

theorem sigchain_decode_error_discarded_witness:
  "snd (Unmarshal (ex_ledger (ex_prev 2 TxnSigner) 1000) [9]) = Some ''unexpected EOF''
   \<and> electProposer (ex_ledger (ex_prev 2 TxnSigner) 1000) (ex_candidate 3 TxnSigner [9])
        (ex_prev 2 TxnSigner) 1120 = Inr ([9], [])"
proof -
  let ?L = "ex_ledger (ex_prev 2 TxnSigner) 1000"
  let ?h = "ex_candidate 3 TxnSigner [9]"
  let ?p = "ex_prev 2 TxnSigner"
  have pre: "GetBlockHash ?L 0 = Inr 10 \<and> GetBlock ?L 10 = Inr ex_genesis
      \<and> GetBlockTime ?L (PrevBlockHash ?h) = Inr 1000
      \<and> sint (timeDiff 1120 1000 (Timestamp (Header ex_genesis))) < sint (timeSlot ?L)
      \<and> WinnerType ?p = TxnSigner"
    by (simp add: ex_ledger_sel ex_header_sel ex_timeSlot timeDiff_def)
  have tx: "GetTransaction ?L (WinnerHash ?p) = Inr ex_commit
      \<and> Payload ex_commit = CommitPayload \<lparr>SigChain = [9]\<rparr>"
    by (simp add: ex_ledger_sel ex_header_sel)
  from sigchain_decode_error_discarded [of ?L 10 ex_genesis ?h 1000 1120 ?p] pre tx
  have "electProposer ?L ?h ?p 1120
      = or_return (GetMiner ?L (fst (Unmarshal ?L (SigChain \<lparr>SigChain = [9]\<rparr>)))) Inr"
    by blast
  then show ?thesis
    by (simp add: ex_ledger_sel or_return_def)
qed

section \<open>Properties of TimestampCheck\<close>

text \<open>
  C7. \<open>TimestampCheck\<close> succeeds exactly when the timestamp is at most 40 seconds away
  from the clock, in either direction: 40 seconds before or after the clock it
  succeeds, 41 seconds before or after it fails with the one error of the function.
  The timestamp is any int64 and is read as that number of seconds; where
  \<open>time.Unix\<close> wraps around, the timestamp is further than 40 seconds from every
  reading of the clock and the wrapped instant is too.
\<close>

theorem timestamp_tolerance_boundary:
  "(TimestampCheck now ts = None \<longleftrightarrow> \<bar>sint ts * Second - sint now\<bar> \<le> 40 * Second)
   \<and> (sint ts * Second = sint now - 40 * Second \<longrightarrow> TimestampCheck now ts = None)
   \<and> (sint ts * Second = sint now - 41 * Second \<longrightarrow>
        TimestampCheck now ts
          = Some (StaleTimestamp ts (Unix (sint now - 40 * Second))
                    (Unix (sint now + 40 * Second))))
   \<and> (sint ts * Second = sint now + 40 * Second \<longrightarrow> TimestampCheck now ts = None)
   \<and> (sint ts * Second = sint now + 41 * Second \<longrightarrow>
        TimestampCheck now ts
          = Some (StaleTimestamp ts (Unix (sint now - 40 * Second))
                    (Unix (sint now + 40 * Second))))"
proof -
  have c: "TimestampCheck now ts =
      (if time_Unix ts < sint now - 40 * Second \<or> time_Unix ts > sint now + 40 * Second
       then Some (StaleTimestamp ts (Unix (sint now - 40 * Second))
                    (Unix (sint now + 40 * Second)))
       else None)"
    by (simp add: TimestampCheck_def Let_def time_Now_def TimestampTolerance_def)
  show ?thesis
  proof (cases "sint ts \<le> 9223371974719179007")
    case True
    then have "time_Unix ts = sint ts * Second"
      by (simp add: time_Unix_eq)
    with c show ?thesis
      by (auto simp: Second_def)
  next
    case False
    then have u: "time_Unix ts = (sint ts - 18446744073709551616) * Second"
      by (simp add: time_Unix_eq)
    from False sint_bounds64 [of ts] sint_bounds64 [of now]
    have early: "time_Unix ts < sint now - 40 * Second"
      and far: "sint ts * Second - sint now > 41 * Second"
      unfolding u by (simp_all add: Second_def)
    from early c have "TimestampCheck now ts
          = Some (StaleTimestamp ts (Unix (sint now - 40 * Second))
                    (Unix (sint now + 40 * Second)))"
      by simp
    with far show ?thesis
      by (auto simp: Second_def)
  qed
qed

text \<open>The theorem with the clock at second 10000 and the timestamps 9960, 9959, 10040, 10041.\<close>

theorem timestamp_tolerance_boundary_witness:
  "TimestampCheck 10000000000000 9960 = None
   \<and> TimestampCheck 10000000000000 9959 = Some (StaleTimestamp 9959 9960 10040)
   \<and> TimestampCheck 10000000000000 10040 = None
   \<and> TimestampCheck 10000000000000 10041 = Some (StaleTimestamp 10041 9960 10040)"
  using timestamp_tolerance_boundary [of 10000000000000 9960]
    timestamp_tolerance_boundary [of 10000000000000 9959]
    timestamp_tolerance_boundary [of 10000000000000 10040]
    timestamp_tolerance_boundary [of 10000000000000 10041]
  by (simp add: Second_def Unix_def)

section \<open>Reading back what the helpers wrote\<close>













lemma ex_texts_distinct:
  "ex_text_bad_hex \<noteq> ex_text" "ex_text_bad_type \<noteq> ex_text" "ex_text_bad_type \<noteq> ex_text_bad_hex"
  by (simp_all add: ex_text_def ex_text_bad_hex_def ex_text_bad_type_def ascii_def)

lemma ex_json_sel:
  "json_Marshal ex_json (ex_info (ascii ''0a0b'')) = Inr ex_text"
  "json_Unmarshal ex_json ex_text = Inr (Some (ex_info (ascii ''0a0b'')))"
  "json_Unmarshal ex_json ex_text_bad_hex = Inr (Some (ex_info (ascii ''zz'')))"
  "json_Unmarshal ex_json ex_text_bad_type =
     Inl ''json: cannot unmarshal string into Go struct field SubscribeInfo.Bucket of type uint32''"
  by (simp_all add: ex_json_def ex_texts_distinct)

lemma ex_hex:
  "BytesToHexString [0x0a, 0x0b] = ascii ''0a0b''"
  "HexStringToBytes (ascii ''zz'') = ([], Some ''invalid hex string'')"
  by (simp_all add: BytesToHexString_def hex_digit_def ascii_def HexStringToBytes_def
      hex_value_def)

section \<open>Properties of Subscribe\<close>




text \<open>
  C9, with \<open>HexStringToBytes\<close> as the specification describes it. When \<open>json.Unmarshal\<close>
  decodes the input into a \<open>SubscribeInfo\<close> whose subscriber is no hex string,
  \<open>UnmarshalJson\<close> returns no error, the subscriber of the result is empty and the other
  four fields are those of the \<open>SubscribeInfo\<close>; when \<open>json.Unmarshal\<close> reports an
  error, \<open>UnmarshalJson\<close> returns that error and leaves the receiver as it was.
\<close>

theorem unmarshal_json_lenient_hex:
  fixes s :: Subscribe
  shows "(json_Unmarshal J data = Inr (Some si)
      \<and> snd (HexStringToBytes (SubscribeInfo.Subscriber si)) \<noteq> None
     \<longrightarrow> UnmarshalJson J s data
          = Return (\<lparr>Subscriber = [], Identifier = SubscribeInfo.Identifier si,
                      Topic = SubscribeInfo.Topic si, Bucket = SubscribeInfo.Bucket si,
                      Duration = SubscribeInfo.Duration si\<rparr>, None))
   \<and> (json_Unmarshal J data = Inl err \<longrightarrow> UnmarshalJson J s data = Return (s, Some err))"
  by (auto simp: UnmarshalJson_def HexStringToBytes_def split: option.splits)

text \<open>The theorem at the JSON text with the subscriber "zz".\<close>

theorem unmarshal_json_lenient_hex_witness:
  "snd (HexStringToBytes (SubscribeInfo.Subscriber (ex_info (ascii ''zz'')))) \<noteq> None
   \<and> UnmarshalJson ex_json ex_subscribe ex_text_bad_hex
      = Return (\<lparr>Subscriber = [], Identifier = [0x78], Topic = [0x74], Bucket = 1,
                  Duration = 2\<rparr>, None)"
proof -
  have h: "snd (HexStringToBytes (SubscribeInfo.Subscriber (ex_info (ascii ''zz'')))) \<noteq> None"
    by (simp add: ex_info_def ex_hex)
  from unmarshal_json_lenient_hex [of ex_json ex_text_bad_hex "ex_info (ascii ''zz'')" ex_subscribe]
  have "UnmarshalJson ex_json ex_subscribe ex_text_bad_hex
      = Return (\<lparr>Subscriber = [],
                  Identifier = SubscribeInfo.Identifier (ex_info (ascii ''zz'')),
                  Topic = SubscribeInfo.Topic (ex_info (ascii ''zz'')),
                  Bucket = SubscribeInfo.Bucket (ex_info (ascii ''zz'')),
                  Duration = SubscribeInfo.Duration (ex_info (ascii ''zz''))\<rparr>, None)"
    using h by (simp add: ex_json_sel)
  with h show ?thesis
    by (simp add: ex_info_def)
qed

text \<open>
  C9 as the specification states it fails: the text
  \<open>{"Subscriber":"zz","Bucket":"x"}\<close> is well-formed JSON and its subscriber is no
  hex string, but \<open>json.Unmarshal\<close> reports a type error for \<open>Bucket\<close>, and
  \<open>UnmarshalJson\<close> returns that error (line 110).
\<close>

theorem unmarshal_json_counterexample:
  "UnmarshalJson ex_json ex_subscribe ex_text_bad_type
     = Return (ex_subscribe,
         Some ''json: cannot unmarshal string into Go struct field SubscribeInfo.Bucket of type uint32'')"
  by (simp add: UnmarshalJson_def ex_json_sel)

end
